theory Spec2Isabelle
  imports Main "HOL-Library.Word" "HOL-Library.AList"
begin

section \<open>Values, types and the heap\<close>

text \<open>
  The session of \<^verbatim>\<open>session.go\<close> inspects its destination through Go's reflection and
  writes query results through pointers. The embedding keeps the part of Go's data that
  the code looks at: the dynamic kind of a value, the declared fields of a struct type,
  and a heap of variables and map objects, so that two references to one map are seen
  as such.
\<close>

type_synonym addr = nat

type_synonym int64 = "64 word"

text \<open>
  The values a driver hands over in a column (\<^verbatim>\<open>driver.Value\<close> boxed in an
  \<^verbatim>\<open>interface{}\<close>): nil, an integer, a boolean, a byte slice, a string. They are also
  what a struct field and a map entry hold in this model.
\<close>

datatype sql_val = SNil | SInt int | SBool bool | SBytes string | SString string

text \<open>The struct tag of a field under the tag name of the library.\<close>

datatype field_tag = NoTag | Override string | Ignore

record field =
  fname :: string
  ftag :: field_tag
  fzero :: sql_val

text \<open>
  A struct type: its name, its fields in declaration order, and what a lookup of the
  method \<^verbatim>\<open>BindName\<close> finds and returns in the method set of the pointer type and of
  the struct type itself.
\<close>

record struct_type =
  tname :: string
  tfields :: "field list"
  ptr_BindName :: "string option"
  val_BindName :: "string option"

datatype go_type = TStruct struct_type | TMap | TOther

text \<open>
  A dynamic value as \<^verbatim>\<open>Bind\<close> receives it in \<^verbatim>\<open>tab interface{}\<close>. A pointer is nil or
  the address of a heap variable; a map value is nil or a reference to a map object
  on the heap; a slice carries its element type and its elements (the sharing of
  backing arrays between slices is not modelled: the code only reads the slice
  variable it has just set). \<open>VOther\<close> is a value of any other kind: a number, a
  function, a channel, a named string type.
\<close>

datatype go_val =
    VNil
  | VString string
  | VPtr "addr option"
  | VStruct struct_type "sql_val list"
  | VMap "addr option"
  | VSlice go_type "go_val list"
  | VOther

datatype cell = Var go_val | MapObj "(string \<times> sql_val) list"

type_synonym heap = "cell list"

definition heap_get :: "heap \<Rightarrow> addr \<Rightarrow> cell option" where
  "heap_get h a = (if a < length h then Some (h ! a) else None)"

definition heap_alloc :: "heap \<Rightarrow> cell \<Rightarrow> addr \<times> heap" where
  "heap_alloc h c = (length h, h @ [c])"

definition heap_set :: "heap \<Rightarrow> addr \<Rightarrow> cell \<Rightarrow> heap" where
  "heap_set h a c = h[a := c]"

text \<open>
  A \<^verbatim>\<open>reflect.Value\<close>: the zero Value, an addressable view of the heap variable at an
  address (what \<^verbatim>\<open>Elem\<close> of a pointer gives), or a value held by copy.
\<close>

datatype rvalue = RZero | RVar addr | RVal go_val

datatype kind = KInvalid | KString | KPtr | KStruct | KMap | KSlice | KOther

fun kind_of :: "go_val \<Rightarrow> kind" where
  "kind_of VNil = KInvalid"
| "kind_of (VString _) = KString"
| "kind_of (VPtr _) = KPtr"
| "kind_of (VStruct _ _) = KStruct"
| "kind_of (VMap _) = KMap"
| "kind_of (VSlice _ _) = KSlice"
| "kind_of VOther = KOther"

text \<open>\<^verbatim>\<open>reflect.Indirect\<close>: a pointer is followed (a nil pointer gives the zero Value),
  any other value is returned as it is.\<close>

fun Indirect :: "go_val \<Rightarrow> rvalue" where
  "Indirect (VPtr None) = RZero"
| "Indirect (VPtr (Some a)) = RVar a"
| "Indirect v = RVal v"

text \<open>The value a \<^verbatim>\<open>reflect.Value\<close> denotes in a heap. An address that holds no
  variable does not occur in Go; it reads as the zero Value.\<close>

fun load :: "heap \<Rightarrow> rvalue \<Rightarrow> go_val option" where
  "load h RZero = None"
| "load h (RVar a) = (case heap_get h a of Some (Var v) \<Rightarrow> Some v | _ \<Rightarrow> None)"
| "load h (RVal v) = Some v"

definition Kind :: "heap \<Rightarrow> rvalue \<Rightarrow> kind" where
  "Kind h r = (case load h r of None \<Rightarrow> KInvalid | Some v \<Rightarrow> kind_of v)"

section \<open>Errors and outcomes\<close>

datatype error =
    ErrNoRows
  | ErrSelectInExecute
  | ErrBindValue
  | ErrTableKind
  | ErrScan string
  | ErrDriver string

text \<open>A Go call returns or panics.\<close>

datatype 'a outcome = Panics | Returns 'a

section \<open>The session\<close>

text \<open>
  The constants of the bind type are declared outside \<^verbatim>\<open>session.go\<close>; the code uses
  the five below, and \<^verbatim>\<open>scan\<close> has a default branch for any other value.
\<close>

datatype bind_type =
    OBJECT_STRUCT
  | OBJECT_STRUCT_SLICE
  | OBJECT_MAP
  | OBJECT_MAP_SLICE
  | OBJECT_STRING
  | OBJECT_UNSET

type_synonym tx_handle = nat

text \<open>The fields of \<^verbatim>\<open>Session\<close> and of the embedded \<^verbatim>\<open>Binder\<close> that the code reads or
  writes. The two connection handles never change and live in the environment.\<close>

record session =
  BindOrigin :: go_val
  BindType :: bind_type
  BindName :: string
  BindFields :: "string list"
  BindResult :: rvalue
  BindResultSlice :: rvalue
  BindLimit :: int
  tx :: "tx_handle option"
  lastInsertId :: int64
  sqlLogs :: "string list"
  lastSql :: string

section \<open>Classification: \<^verbatim>\<open>parseTable\<close>, \<^verbatim>\<open>parseFields\<close>, \<^verbatim>\<open>Bind\<close>\<close>

text \<open>
  Modelled from the spec: \<^verbatim>\<open>getTagName\<close> is called by \<^verbatim>\<open>parseFields\<close> and defined
  outside \<^verbatim>\<open>session.go\<close>. The spec (4.2): it reads the declared fields in declaration
  order and maps each to its column name, an explicit override tag or else a
  deterministic transform of the field name; fields marked ignore are omitted. The
  transform is the parameter \<open>conv\<close>.
\<close>

definition column_name :: "(string \<Rightarrow> string) \<Rightarrow> field \<Rightarrow> string" where
  "column_name conv f = (case ftag f of Override c \<Rightarrow> c | _ \<Rightarrow> conv (fname f))"

definition getTagName :: "(string \<Rightarrow> string) \<Rightarrow> struct_type \<Rightarrow> string list" where
  "getTagName conv T = map (column_name conv) (filter (\<lambda>f. ftag f \<noteq> Ignore) (tfields T))"

text \<open>\<^verbatim>\<open>parseFields\<close>, on the struct type of \<^verbatim>\<open>s.BindResult.Interface()\<close>.\<close>

definition parseFields :: "(string \<Rightarrow> string) \<Rightarrow> struct_type \<Rightarrow> session \<Rightarrow> session" where
  "parseFields conv T s =
     (if length (BindFields s) = 0 then s\<lparr>BindFields := getTagName conv T\<rparr> else s)"

text \<open>\<^verbatim>\<open>MethodByName("BindName")\<close> on the value handed to \<^verbatim>\<open>Bind\<close>: the method set of
  the pointer type when that value is a pointer, of the struct type otherwise.\<close>

fun origin_BindName :: "go_val \<Rightarrow> struct_type \<Rightarrow> string option" where
  "origin_BindName (VPtr _) T = ptr_BindName T"
| "origin_BindName _ T = val_BindName T"

text \<open>
  \<^verbatim>\<open>parseTable\<close>. The result is the returned error and the session and heap it leaves.
  The last assignment \<^verbatim>\<open>s.BindName = BindName\<close> is reached by every branch that does
  not return early; the local \<^verbatim>\<open>BindName\<close> starts as the empty string.
\<close>

definition parseTable ::
  "(string \<Rightarrow> string) \<Rightarrow> session \<times> heap \<Rightarrow> error option \<times> session \<times> heap" where
  "parseTable conv st =
     (let (s, h) = st in
      case BindOrigin s of
        VNil \<Rightarrow> (None, s, h)
      | VString name \<Rightarrow> (None, s\<lparr>BindType := OBJECT_STRING, BindName := name\<rparr>, h)
      | _ \<Rightarrow>
         (let s0 = s\<lparr>BindFields := []\<rparr>;
              dstVal = BindOrigin s;
              sliceVal = Indirect dstVal
          in case load h sliceVal of
               Some (VStruct T vs) \<Rightarrow>
                 (let s1 = s0\<lparr>BindType := OBJECT_STRUCT, BindResult := sliceVal, BindLimit := 1\<rparr>;
                      name = (case origin_BindName dstVal T of Some n \<Rightarrow> n | None \<Rightarrow> tname T);
                      s2 = parseFields conv T s1
                  in (None, s2\<lparr>BindName := name\<rparr>, h))
             | Some (VMap m) \<Rightarrow>
                 (let s1 = s0\<lparr>BindType := OBJECT_MAP, BindLimit := 1, BindResult := sliceVal\<rparr>
                  in (None, s1\<lparr>BindName := []\<rparr>, h))
             | Some (VSlice eltType es) \<Rightarrow>
                 (case eltType of
                    TMap \<Rightarrow>
                      (let (m, h1) = heap_alloc h (MapObj []);
                           s1 = s0\<lparr>BindType := OBJECT_MAP_SLICE,
                                   BindResult := RVal (VMap (Some m)),
                                   BindResultSlice := sliceVal\<rparr>
                       in (None, s1\<lparr>BindName := []\<rparr>, h1))
                  | TStruct T \<Rightarrow>
                      (let (p, h1) = heap_alloc h (Var (VStruct T (map fzero (tfields T))));
                           s1 = s0\<lparr>BindType := OBJECT_STRUCT_SLICE,
                                   BindResult := RVal (VPtr (Some p)),
                                   BindResultSlice := sliceVal\<rparr>;
                           name = (case ptr_BindName T of Some n \<Rightarrow> n | None \<Rightarrow> tname T);
                           s2 = parseFields conv T s1
                       in (None, s2\<lparr>BindName := name\<rparr>, h1))
                  | TOther \<Rightarrow> (Some ErrTableKind, s0, h))
             | _ \<Rightarrow> (Some ErrTableKind, s0, h)))"

text \<open>\<^verbatim>\<open>Bind\<close> stores the destination, runs \<^verbatim>\<open>parseTable\<close>, drops its error
  (\<^verbatim>\<open>_ = s.parseTable()\<close>) and returns the session.\<close>

definition Bind :: "(string \<Rightarrow> string) \<Rightarrow> go_val \<Rightarrow> session \<times> heap \<Rightarrow> session \<times> heap" where
  "Bind conv tab st =
     (let (s, h) = st in snd (parseTable conv (s\<lparr>BindOrigin := tab\<rparr>, h)))"

section \<open>The database behind the session\<close>

text \<open>
  The connections, prepared statements and transactions of \<^verbatim>\<open>database/sql\<close> are
  outside the repository. The environment gives each call the code makes on them as a
  function on an abstract database state \<open>'db\<close>: whatever a call does to the
  connection shows in that state, and a run that leaves the state as it was has made
  no such call that matters. \<^verbatim>\<open>fmt.Sprintf\<close>, the engine's query-log flag and the
  non-ASCII branch of \<^verbatim>\<open>strings.ToLower\<close> are parameters too.
\<close>

type_synonym stmt = nat

text \<open>An \<^verbatim>\<open>sql.Result\<close>: what its two accessors return.\<close>

record sql_result =
  res_LastInsertId :: "int64 \<times> error option"
  res_RowsAffected :: "int64 \<times> error option"

record 'db env =
  IfEnableQueryLog :: bool
  Sprintf :: "string \<Rightarrow> sql_val list \<Rightarrow> string"
  unicode_ToLower :: "string \<Rightarrow> string"
  master_Begin :: "'db \<Rightarrow> (error + tx_handle) \<times> 'db"
  master_Prepare :: "string \<Rightarrow> 'db \<Rightarrow> (error + stmt) \<times> 'db"
  tx_Prepare :: "tx_handle \<Rightarrow> string \<Rightarrow> 'db \<Rightarrow> (error + stmt) \<times> 'db"
  tx_Commit :: "tx_handle \<Rightarrow> 'db \<Rightarrow> error option \<times> 'db"
  tx_Rollback :: "tx_handle \<Rightarrow> 'db \<Rightarrow> error option \<times> 'db"
  stmt_Exec :: "stmt \<Rightarrow> sql_val list \<Rightarrow> 'db \<Rightarrow> (error + sql_result) \<times> 'db"
  stmt_Close :: "stmt \<Rightarrow> 'db \<Rightarrow> 'db"

subsection \<open>\<^verbatim>\<open>strings.ToLower\<close>\<close>

definition is_ascii :: "char \<Rightarrow> bool" where
  "is_ascii c = ((of_char c :: nat) < 128)"

definition ascii_lower :: "char \<Rightarrow> char" where
  "ascii_lower c =
     (let n = (of_char c :: nat) in if 65 \<le> n \<and> n \<le> 90 then char_of (n + 32) else c)"

text \<open>Go lowers an all-ASCII string byte by byte and sends any other string through
  the Unicode mapping.\<close>

definition ToLower :: "(string \<Rightarrow> string) \<Rightarrow> string \<Rightarrow> string" where
  "ToLower uni s = (if list_all is_ascii s then map ascii_lower s else uni s)"

subsection \<open>\<^verbatim>\<open>Begin\<close>, \<^verbatim>\<open>Rollback\<close>, \<^verbatim>\<open>Commit\<close>, \<^verbatim>\<open>Transaction\<close>\<close>

definition Begin :: "'db env \<Rightarrow> session \<times> 'db \<Rightarrow> error option \<times> session \<times> 'db" where
  "Begin env st =
     (let (s, db) = st in
      case master_Begin env db of
        (Inl err, db1) \<Rightarrow> (Some err, s\<lparr>tx := None\<rparr>, db1)
      | (Inr t, db1) \<Rightarrow> (None, s\<lparr>tx := Some t\<rparr>, db1))"

text \<open>\<^verbatim>\<open>s.tx.Rollback()\<close> and \<^verbatim>\<open>s.tx.Commit()\<close> dereference the transaction handle: on a
  nil handle the call panics.\<close>

definition Rollback :: "'db env \<Rightarrow> session \<times> 'db \<Rightarrow> (error option \<times> session \<times> 'db) outcome" where
  "Rollback env st =
     (let (s, db) = st in
      case tx s of
        None \<Rightarrow> Panics
      | Some t \<Rightarrow> (let (err, db1) = tx_Rollback env t db in Returns (err, s\<lparr>tx := None\<rparr>, db1)))"

definition Commit :: "'db env \<Rightarrow> session \<times> 'db \<Rightarrow> (error option \<times> session \<times> 'db) outcome" where
  "Commit env st =
     (let (s, db) = st in
      case tx s of
        None \<Rightarrow> Panics
      | Some t \<Rightarrow> (let (err, db1) = tx_Commit env t db in Returns (err, s\<lparr>tx := None\<rparr>, db1)))"

text \<open>A step of a transaction is a Go closure over the session: it may change the
  session and the database, and returns an error or nil. Steps that panic are not
  modelled.\<close>

type_synonym 'db closer = "session \<times> 'db \<Rightarrow> error option \<times> session \<times> 'db"

text \<open>The loop over \<^verbatim>\<open>closers\<close> with the final \<^verbatim>\<open>return s.Commit()\<close>.\<close>

fun Transaction_loop ::
  "'db env \<Rightarrow> 'db closer list \<Rightarrow> session \<times> 'db \<Rightarrow> (error option \<times> session \<times> 'db) outcome" where
  "Transaction_loop env [] st = Commit env st"
| "Transaction_loop env (closer # closers) st =
     (case closer st of
        (Some err, st1) \<Rightarrow>
          (case Rollback env st1 of
             Panics \<Rightarrow> Panics
           | Returns (_, st2) \<Rightarrow> Returns (Some err, st2))
      | (None, st1) \<Rightarrow> Transaction_loop env closers st1)"

definition Transaction ::
  "'db env \<Rightarrow> 'db closer list \<Rightarrow> session \<times> 'db \<Rightarrow> (error option \<times> session \<times> 'db) outcome" where
  "Transaction env closers st =
     (case Begin env st of
        (Some err, st1) \<Rightarrow> Returns (Some err, st1)
      | (None, st1) \<Rightarrow> Transaction_loop env closers st1)"

subsection \<open>\<^verbatim>\<open>Execute\<close> and \<^verbatim>\<open>LastInsertId\<close>\<close>

text \<open>The first two statements of \<^verbatim>\<open>Execute\<close> (and of \<^verbatim>\<open>Query\<close>): record the
  interpolated text and append it to the log when logging is on.\<close>

definition record_sql :: "'db env \<Rightarrow> string \<Rightarrow> sql_val list \<Rightarrow> session \<Rightarrow> session" where
  "record_sql env sqlstring args s =
     (let s1 = s\<lparr>lastSql := Sprintf env sqlstring args\<rparr>
      in if IfEnableQueryLog env then s1\<lparr>sqlLogs := sqlLogs s1 @ [lastSql s1]\<rparr> else s1)"

text \<open>
  \<^verbatim>\<open>Execute\<close> returns the affected-row count and the error. The slice expression
  \<^verbatim>\<open>sqlstring[0:6]\<close> panics when the text has fewer than six bytes. The deferred
  \<^verbatim>\<open>stmt.Close()\<close> runs on every return after a successful \<^verbatim>\<open>Prepare\<close>. The
  \<^verbatim>\<open>err\<close> of the insert branch is a new variable of that block, so the returned error is
  the one of \<^verbatim>\<open>RowsAffected\<close>.
\<close>

definition Execute ::
  "'db env \<Rightarrow> string \<Rightarrow> sql_val list \<Rightarrow> session \<times> 'db
     \<Rightarrow> (int64 \<times> error option \<times> session \<times> 'db) outcome" where
  "Execute env sqlstring args st =
     (let (s, db) = st;
          s1 = record_sql env sqlstring args s
      in if length sqlstring < 6 then Panics
         else
           (let operType = ToLower (unicode_ToLower env) (take 6 sqlstring)
            in if operType = ''select'' then Returns (0, Some ErrSelectInExecute, s1, db)
               else
                 (case (case tx s1 of
                          None \<Rightarrow> master_Prepare env sqlstring db
                        | Some t \<Rightarrow> tx_Prepare env t sqlstring db) of
                    (Inl err, db1) \<Rightarrow> Returns (0, Some err, s1, db1)
                  | (Inr stmt, db1) \<Rightarrow>
                      (case stmt_Exec env stmt args db1 of
                         (Inl errs, db2) \<Rightarrow> Returns (0, Some errs, s1, stmt_Close env stmt db2)
                       | (Inr result, db2) \<Rightarrow>
                           (let s2 = (if operType = ''insert''
                                      then (case res_LastInsertId result of
                                              (lastId, None) \<Rightarrow> s1\<lparr>lastInsertId := lastId\<rparr>
                                            | (lastId, Some _) \<Rightarrow> s1)
                                      else s1);
                                (rowsAffected, err) = res_RowsAffected result
                            in Returns (rowsAffected, err, s2, stmt_Close env stmt db2))))))"

definition LastInsertId :: "session \<Rightarrow> int64" where
  "LastInsertId s = lastInsertId s"

section \<open>The row cursor\<close>

text \<open>
  An \<^verbatim>\<open>sql.Rows\<close>, by what the code can observe of it: the result of \<^verbatim>\<open>Columns\<close>,
  the rows still to come, the error that ends the iteration (none for a clean end),
  the row that the last \<^verbatim>\<open>Next\<close> made current, and the error that \<^verbatim>\<open>Err\<close> reports.
  A cell of a row is the column's value as \<^verbatim>\<open>Scan\<close> stores it in the bound target, or
  the message of the error with which \<^verbatim>\<open>Scan\<close> fails at that column.
\<close>

type_synonym row = "(string + sql_val) list"

record cursor =
  cur_columns :: "error + string list"
  pending :: "row list"
  end_err :: "error option"
  current :: "row option"
  lasterr :: "error option"

definition Next :: "cursor \<Rightarrow> bool \<times> cursor" where
  "Next c =
     (case pending c of
        [] \<Rightarrow> (False, c\<lparr>current := None, lasterr := end_err c\<rparr>)
      | r # rs \<Rightarrow> (True, c\<lparr>pending := rs, current := Some r, lasterr := None\<rparr>))"

definition Err :: "cursor \<Rightarrow> error option" where
  "Err c = lasterr c"

definition Columns :: "cursor \<Rightarrow> error + string list" where
  "Columns c = cur_columns c"

text \<open>\<^verbatim>\<open>Scan\<close> assigns column by column and stops at the first that fails: the values
  assigned so far, and the error.\<close>

fun convert_cells :: "row \<Rightarrow> sql_val list \<times> error option" where
  "convert_cells [] = ([], None)"
| "convert_cells (Inl msg # cs) = ([], Some (ErrScan msg))"
| "convert_cells (Inr v # cs) = (let (vs, err) = convert_cells cs in (v # vs, err))"

text \<open>\<^verbatim>\<open>Scan\<close> on \<open>n\<close> pointer targets: it needs a current row with as many columns as
  there are targets.\<close>

definition scan_values :: "cursor \<Rightarrow> nat \<Rightarrow> sql_val list \<times> error option" where
  "scan_values c n =
     (case current c of
        None \<Rightarrow> ([], Some (ErrScan ''sql: Scan called without calling Next''))
      | Some r \<Rightarrow>
          if length r \<noteq> n then ([], Some (ErrScan ''sql: wrong number of destination arguments in Scan''))
          else convert_cells r)"

section \<open>Materialization: \<^verbatim>\<open>scan\<close>, \<^verbatim>\<open>scanRow\<close>, \<^verbatim>\<open>scanAll\<close>, \<^verbatim>\<open>scanMap\<close>, \<^verbatim>\<open>scanMapAll\<close>\<close>

text \<open>
  Modelled from the spec: \<^verbatim>\<open>strutForScan\<close> is called by \<^verbatim>\<open>scanRow\<close> and \<^verbatim>\<open>scanAll\<close> and
  defined outside \<^verbatim>\<open>session.go\<close>. The spec (4.3): a row is scanned positionally into
  the record's exposed field storage, in the order derived in 4.2, that is the fields
  not marked ignore, in declaration order. For a record reached through a pointer the
  targets are those fields of the heap variable. A record held by value exposes no
  storage that can be written: its targets are not pointers. A value that is no
  record has no fields to reflect on.
\<close>

datatype scan_targets = Fields addr "nat list" | Unaddressable nat | NotRecord

definition exposed :: "struct_type \<Rightarrow> nat list" where
  "exposed T = filter (\<lambda>i. ftag (tfields T ! i) \<noteq> Ignore) [0 ..< length (tfields T)]"

fun strutForScan :: "heap \<Rightarrow> go_val \<Rightarrow> scan_targets" where
  "strutForScan h (VPtr (Some a)) =
     (case heap_get h a of
        Some (Var (VStruct T vs)) \<Rightarrow> Fields a (exposed T)
      | _ \<Rightarrow> NotRecord)"
| "strutForScan h (VStruct T vs) = Unaddressable (length (exposed T))"
| "strutForScan h _ = NotRecord"

text \<open>Writing scanned values into fields of the struct variable at an address.\<close>

fun set_fields :: "(nat \<times> sql_val) list \<Rightarrow> sql_val list \<Rightarrow> sql_val list" where
  "set_fields [] vs = vs"
| "set_fields ((i, v) # ws) vs = set_fields ws (vs[i := v])"

definition store_fields :: "heap \<Rightarrow> addr \<Rightarrow> (nat \<times> sql_val) list \<Rightarrow> heap" where
  "store_fields h a ws =
     (case heap_get h a of
        Some (Var (VStruct T vs)) \<Rightarrow> heap_set h a (Var (VStruct T (set_fields ws vs)))
      | _ \<Rightarrow> h)"

text \<open>\<^verbatim>\<open>rows.Scan(strutForScan(dst)...)\<close>. Reflecting on the fields of a value that is
  no record panics; targets that are not pointers are rejected by \<^verbatim>\<open>Scan\<close> at the
  first column.\<close>

definition Scan_struct :: "cursor \<Rightarrow> scan_targets \<Rightarrow> heap \<Rightarrow> (error option \<times> heap) outcome" where
  "Scan_struct c targets h =
     (case targets of
        NotRecord \<Rightarrow> Panics
      | Unaddressable n \<Rightarrow>
          (case current c of
             None \<Rightarrow> Returns (Some (ErrScan ''sql: Scan called without calling Next''), h)
           | Some r \<Rightarrow>
               if length r \<noteq> n
               then Returns (Some (ErrScan ''sql: wrong number of destination arguments in Scan''), h)
               else if n = 0 then Returns (None, h)
               else Returns (Some (ErrScan ''destination not a pointer''), h))
      | Fields a idxs \<Rightarrow>
          (let (vals, err) = scan_values c (length idxs)
           in Returns (err, store_fields h a (zip idxs vals))))"

text \<open>\<^verbatim>\<open>scanRow\<close>: the result is the error, the cursor as it is left, and the heap.\<close>

definition scanRow :: "cursor \<Rightarrow> go_val \<Rightarrow> heap \<Rightarrow> (error option \<times> cursor \<times> heap) outcome" where
  "scanRow rows dst h =
     (case Next rows of
        (False, rows1) \<Rightarrow>
          (case Err rows1 of
             Some err \<Rightarrow> Returns (Some err, rows1, h)
           | None \<Rightarrow> Returns (Some ErrNoRows, rows1, h))
      | (True, rows1) \<Rightarrow>
          (case Scan_struct rows1 (strutForScan h dst) h of
             Panics \<Rightarrow> Panics
           | Returns (Some err, h1) \<Rightarrow> Returns (Some err, rows1, h1)
           | Returns (None, h1) \<Rightarrow> Returns (Err rows1, rows1, h1)))"

text \<open>\<^verbatim>\<open>s.BindResultSlice.Set(reflect.Append(s.BindResultSlice, x))\<close>: \<^verbatim>\<open>Append\<close> needs
  a slice, \<^verbatim>\<open>Set\<close> an addressable Value.\<close>

definition append_slice :: "heap \<Rightarrow> rvalue \<Rightarrow> go_val \<Rightarrow> heap outcome" where
  "append_slice h dstSlice x =
     (case dstSlice of
        RVar a \<Rightarrow>
          (case load h dstSlice of
             Some (VSlice t es) \<Rightarrow> Returns (heap_set h a (Var (VSlice t (es @ [x]))))
           | _ \<Rightarrow> Panics)
      | _ \<Rightarrow> Panics)"

text \<open>\<^verbatim>\<open>Value.Elem\<close> of a pointer.\<close>

definition Elem :: "heap \<Rightarrow> rvalue \<Rightarrow> go_val option" where
  "Elem h r =
     (case load h r of
        Some (VPtr (Some p)) \<Rightarrow> load h (RVar p)
      | _ \<Rightarrow> None)"

text \<open>\<^verbatim>\<open>scanAll\<close>. The struct scanned into is the one template that \<^verbatim>\<open>parseTable\<close>
  allocated; what is appended is \<^verbatim>\<open>s.BindResult.Elem()\<close>, the struct value itself.\<close>

function scanAll :: "cursor \<Rightarrow> session \<Rightarrow> heap \<Rightarrow> (error option \<times> cursor \<times> heap) outcome" where
  "scanAll rows s h =
     (case Next rows of
        (False, rows1) \<Rightarrow> Returns (Err rows1, rows1, h)
      | (True, rows1) \<Rightarrow>
          (case load h (BindResult s) of
             None \<Rightarrow> Panics
           | Some dst \<Rightarrow>
               (case Scan_struct rows1 (strutForScan h dst) h of
                  Panics \<Rightarrow> Panics
                | Returns (Some err, h1) \<Rightarrow> Returns (Some err, rows1, h1)
                | Returns (None, h1) \<Rightarrow>
                    (case Elem h1 (BindResult s) of
                       None \<Rightarrow> Panics
                     | Some x \<Rightarrow>
                         (case append_slice h1 (BindResultSlice s) x of
                            Panics \<Rightarrow> Panics
                          | Returns h2 \<Rightarrow> scanAll rows1 s h2)))))"
  by pat_completeness auto
termination
  by (relation "measure (\<lambda>(rows, s, h). length (pending rows))")
     (auto simp: Next_def split: list.splits)

text \<open>The decoding of a scanned value: a byte slice becomes a string.\<close>

fun decode :: "sql_val \<Rightarrow> sql_val" where
  "decode (SBytes b) = SString b"
| "decode v = v"

text \<open>\<^verbatim>\<open>s.BindResult.SetMapIndex(col, v)\<close>: it panics on a Value that is no map and on
  a nil map.\<close>

definition SetMapIndex :: "heap \<Rightarrow> rvalue \<Rightarrow> string \<Rightarrow> sql_val \<Rightarrow> heap outcome" where
  "SetMapIndex h r col v =
     (case load h r of
        Some (VMap (Some m)) \<Rightarrow>
          (case heap_get h m of
             Some (MapObj kvs) \<Rightarrow> Returns (heap_set h m (MapObj (AList.update col v kvs)))
           | _ \<Rightarrow> Panics)
      | _ \<Rightarrow> Panics)"

text \<open>The inner loop \<^verbatim>\<open>for i, col := range columns\<close>.\<close>

fun set_columns :: "heap \<Rightarrow> rvalue \<Rightarrow> (string \<times> sql_val) list \<Rightarrow> heap outcome" where
  "set_columns h r [] = Returns h"
| "set_columns h r ((col, val) # cvs) =
     (case SetMapIndex h r col (decode val) of
        Panics \<Rightarrow> Panics
      | Returns h1 \<Rightarrow> set_columns h1 r cvs)"

text \<open>
  The loop of \<^verbatim>\<open>scanMapAll\<close>. \<^verbatim>\<open>values\<close> is allocated once before the loop; the result
  of \<^verbatim>\<open>rows.Scan(scanArgs...)\<close> is not looked at, so after a failed scan the columns not
  assigned keep the values of the row before. Every row is written into the one map
  \<^verbatim>\<open>s.BindResult\<close>, and under \<^verbatim>\<open>OBJECT_MAP_SLICE\<close> that map is what is appended.
\<close>

function scanMapAll_loop ::
  "string list \<Rightarrow> sql_val list \<Rightarrow> cursor \<Rightarrow> session \<Rightarrow> heap
     \<Rightarrow> (error option \<times> cursor \<times> heap) outcome" where
  "scanMapAll_loop columns values rows s h =
     (case Next rows of
        (False, rows1) \<Rightarrow> Returns (None, rows1, h)
      | (True, rows1) \<Rightarrow>
          (let (vals, _) = scan_values rows1 (length columns);
               values1 = vals @ drop (length vals) values
           in case set_columns h (BindResult s) (zip columns values1) of
                Panics \<Rightarrow> Panics
              | Returns h1 \<Rightarrow>
                  if BindType s = OBJECT_MAP_SLICE
                  then (case load h1 (BindResult s) of
                          None \<Rightarrow> Panics
                        | Some x \<Rightarrow>
                            (case append_slice h1 (BindResultSlice s) x of
                               Panics \<Rightarrow> Panics
                             | Returns h2 \<Rightarrow> scanMapAll_loop columns values1 rows1 s h2))
                  else scanMapAll_loop columns values1 rows1 s h1))"
  by pat_completeness auto
termination
  by (relation "measure (\<lambda>(columns, values, rows, s, h). length (pending rows))")
     (auto simp: Next_def split: list.splits)

definition scanMapAll :: "cursor \<Rightarrow> session \<Rightarrow> heap \<Rightarrow> (error option \<times> cursor \<times> heap) outcome" where
  "scanMapAll rows s h =
     (case Columns rows of
        Inl err \<Rightarrow> Returns (Some err, rows, h)
      | Inr columns \<Rightarrow> scanMapAll_loop columns (replicate (length columns) SNil) rows s h)"

definition scanMap :: "cursor \<Rightarrow> session \<Rightarrow> heap \<Rightarrow> (error option \<times> cursor \<times> heap) outcome" where
  "scanMap rows s h = scanMapAll rows s h"

definition scan :: "cursor \<Rightarrow> session \<Rightarrow> heap \<Rightarrow> (error option \<times> cursor \<times> heap) outcome" where
  "scan rows s h =
     (case BindType s of
        OBJECT_STRUCT \<Rightarrow> scanRow rows (BindOrigin s) h
      | OBJECT_STRUCT_SLICE \<Rightarrow> scanAll rows s h
      | OBJECT_MAP \<Rightarrow> scanMap rows s h
      | OBJECT_MAP_SLICE \<Rightarrow> scanMapAll rows s h
      | _ \<Rightarrow> Returns (Some ErrBindValue, rows, h))"

section \<open>Notions used to state the properties\<close>

text \<open>A string that equals a lower-case word up to the case of its ASCII letters.\<close>

definition ascii_upper :: "char \<Rightarrow> char" where
  "ascii_upper c =
     (let n = (of_char c :: nat) in if 97 \<le> n \<and> n \<le> 122 then char_of (n - 32) else c)"

definition case_variant :: "string \<Rightarrow> string \<Rightarrow> bool" where
  "case_variant word s = list_all2 (\<lambda>c w. c = w \<or> c = ascii_upper w) s word"


section \<open>Example data\<close>

text \<open>A struct type with a plain field, a field with an override tag and an ignored
  field; a fresh session; heaps holding one destination variable each.\<close>

definition ex_User :: struct_type where
  "ex_User = \<lparr>tname = ''User'',
     tfields = [\<lparr>fname = ''Id'', ftag = NoTag, fzero = SInt 0\<rparr>,
                \<lparr>fname = ''Name'', ftag = Override ''uname'', fzero = SString []\<rparr>,
                \<lparr>fname = ''Secret'', ftag = Ignore, fzero = SNil\<rparr>],
     ptr_BindName = None, val_BindName = None\<rparr>"

definition ex_session :: session where
  "ex_session = \<lparr>BindOrigin = VNil, BindType = OBJECT_UNSET, BindName = [], BindFields = [],
     BindResult = RZero, BindResultSlice = RZero, BindLimit = 0, tx = None, lastInsertId = 0,
     sqlLogs = [], lastSql = []\<rparr>"

definition ex_heap_user :: heap where
  "ex_heap_user = [Var (VStruct ex_User [SInt 0, SString [], SNil])]"

definition ex_heap_users :: heap where
  "ex_heap_users = [Var (VSlice (TStruct ex_User) [])]"

definition ex_heap_map :: heap where
  "ex_heap_map = [Var (VMap (Some 1)), MapObj []]"

definition ex_heap_maps :: heap where
  "ex_heap_maps = [Var (VSlice TMap [])]"

text \<open>A fresh cursor over given columns and rows that ends cleanly.\<close>

definition ex_cursor :: "string list \<Rightarrow> row list \<Rightarrow> cursor" where
  "ex_cursor cols rs =
     \<lparr>cur_columns = Inr cols, pending = rs, end_err = None, current = None, lasterr = None\<rparr>"

text \<open>A database that is the log of the calls made on it, with a driver that always
  succeeds; and the same driver on a database that reports no generated identifier.\<close>

definition ex_result :: sql_result where
  "ex_result = \<lparr>res_LastInsertId = (42, None), res_RowsAffected = (1, None)\<rparr>"

definition ex_result_noid :: sql_result where
  "ex_result_noid = \<lparr>res_LastInsertId = (0, Some (ErrDriver ''LastInsertId is not supported'')),
                      res_RowsAffected = (1, None)\<rparr>"

definition ex_env :: "string list env" where
  "ex_env = \<lparr>IfEnableQueryLog = True,
     Sprintf = (\<lambda>format args. format),
     unicode_ToLower = (\<lambda>s. s),
     master_Begin = (\<lambda>db. (Inr 7, db @ [''Begin''])),
     master_Prepare = (\<lambda>q db. (Inr 1, db @ [''Prepare''])),
     tx_Prepare = (\<lambda>t q db. (Inr 2, db @ [''TxPrepare''])),
     tx_Commit = (\<lambda>t db. (None, db @ [''Commit''])),
     tx_Rollback = (\<lambda>t db. (None, db @ [''Rollback''])),
     stmt_Exec = (\<lambda>st args db. (Inr ex_result, db @ [''Exec''])),
     stmt_Close = (\<lambda>st db. db @ [''Close''])\<rparr>"

definition ex_env_noid :: "string list env" where
  "ex_env_noid = ex_env\<lparr>stmt_Exec := (\<lambda>st args db. (Inr ex_result_noid, db @ [''Exec'']))\<rparr>"



section \<open>Properties of classification\<close>

subsection \<open>What \<^verbatim>\<open>parseTable\<close> does on each kind of destination\<close>

lemma parseTable_struct:
  assumes "load h (Indirect (BindOrigin s)) = Some (VStruct T vs)"
  shows "parseTable conv (s, h) =
    (None, s\<lparr>BindFields := getTagName conv T, BindType := OBJECT_STRUCT,
             BindResult := Indirect (BindOrigin s), BindLimit := 1,
             BindName := (case origin_BindName (BindOrigin s) T of Some n \<Rightarrow> n | None \<Rightarrow> tname T)\<rparr>, h)"
  using assms
  by (cases "BindOrigin s")
     (auto simp: parseTable_def parseFields_def Let_def split: option.splits)

lemma parseTable_struct_slice:
  assumes "load h (Indirect (BindOrigin s)) = Some (VSlice (TStruct T) es)"
  shows "parseTable conv (s, h) =
    (None, s\<lparr>BindFields := getTagName conv T, BindType := OBJECT_STRUCT_SLICE,
             BindResult := RVal (VPtr (Some (length h))),
             BindResultSlice := Indirect (BindOrigin s),
             BindName := (case ptr_BindName T of Some n \<Rightarrow> n | None \<Rightarrow> tname T)\<rparr>,
     h @ [Var (VStruct T (map fzero (tfields T)))])"
  using assms
  by (cases "BindOrigin s")
     (auto simp: parseTable_def parseFields_def heap_alloc_def Let_def split: option.splits)

lemma parseTable_map:
  assumes "load h (Indirect (BindOrigin s)) = Some (VMap m)"
  shows "parseTable conv (s, h) =
    (None, s\<lparr>BindFields := [], BindType := OBJECT_MAP, BindLimit := 1,
             BindResult := Indirect (BindOrigin s), BindName := []\<rparr>, h)"
  using assms
  by (cases "BindOrigin s") (auto simp: parseTable_def Let_def split: option.splits)

lemma parseTable_unrecognized:
  assumes "tab \<noteq> VNil" and "kind_of tab \<noteq> KString"
    and "Kind h (Indirect tab) \<notin> {KStruct, KMap, KSlice} \<or>
         (\<exists>es. load h (Indirect tab) = Some (VSlice TOther es))"
  shows "parseTable conv (s\<lparr>BindOrigin := tab\<rparr>, h) =
           (Some ErrTableKind, s\<lparr>BindOrigin := tab, BindFields := []\<rparr>, h)"
  using assms
  by (cases tab; cases "load h (Indirect tab)"; cases "the (load h (Indirect tab))")
     (auto simp: parseTable_def Kind_def Let_def split: option.splits go_val.splits cell.splits)

subsection \<open>The example binds, evaluated\<close>

lemma ex_bind_user:
  "Bind id (VPtr (Some 0)) (ex_session, ex_heap_user) =
     (ex_session\<lparr>BindOrigin := VPtr (Some 0), BindFields := [''Id'', ''uname''],
                 BindType := OBJECT_STRUCT, BindResult := RVar 0, BindLimit := 1,
                 BindName := ''User''\<rparr>, ex_heap_user)"
  by (simp add: Bind_def parseTable_def parseFields_def getTagName_def column_name_def
        ex_session_def ex_heap_user_def heap_get_def ex_User_def)

lemma ex_bind_users:
  "Bind id (VPtr (Some 0)) (ex_session, ex_heap_users) =
     (ex_session\<lparr>BindOrigin := VPtr (Some 0), BindFields := [''Id'', ''uname''],
                 BindType := OBJECT_STRUCT_SLICE, BindResult := RVal (VPtr (Some 1)),
                 BindResultSlice := RVar 0, BindName := ''User''\<rparr>,
      [Var (VSlice (TStruct ex_User) []), Var (VStruct ex_User [SInt 0, SString [], SNil])])"
  by (simp add: Bind_def parseTable_def parseFields_def getTagName_def column_name_def
        ex_session_def ex_heap_users_def heap_get_def heap_alloc_def ex_User_def)

lemma ex_bind_users_other:
  "Bind id VOther (Bind id (VPtr (Some 0)) (ex_session, ex_heap_users)) =
     (ex_session\<lparr>BindOrigin := VOther, BindFields := [],
                 BindType := OBJECT_STRUCT_SLICE, BindResult := RVal (VPtr (Some 1)),
                 BindResultSlice := RVar 0, BindName := ''User''\<rparr>,
      [Var (VSlice (TStruct ex_User) []), Var (VStruct ex_User [SInt 0, SString [], SNil])])"
  unfolding ex_bind_users
  by (simp add: Bind_def parseTable_def ex_session_def heap_get_def)

lemma ex_bind_maps:
  "Bind id (VPtr (Some 0)) (ex_session, ex_heap_maps) =
     (ex_session\<lparr>BindOrigin := VPtr (Some 0), BindType := OBJECT_MAP_SLICE,
                 BindResult := RVal (VMap (Some 1)), BindResultSlice := RVar 0\<rparr>,
      [Var (VSlice TMap []), MapObj []])"
  by (simp add: Bind_def parseTable_def ex_session_def ex_heap_maps_def heap_get_def heap_alloc_def)

lemma exposed_ex_User: "exposed ex_User = [0, 1]"
  by (simp add: exposed_def ex_User_def upt_rec)

subsection \<open>C1: the field list of a record destination\<close>

text \<open>
  C1 as stated fails: a field list that the caller set before \<^verbatim>\<open>Bind\<close> is overwritten.
  The session below carries the field list \<open>[nick]\<close>; binding a pointer to a
  \<open>User\<close> struct classifies it as \<^verbatim>\<open>OBJECT_STRUCT\<close> and leaves the field list
  \<open>[Id, uname]\<close>. \<^verbatim>\<open>parseTable\<close> clears \<^verbatim>\<open>s.BindFields\<close> before \<^verbatim>\<open>parseFields\<close> tests
  it for emptiness.
\<close>

theorem Bind_overwrites_preset_fields:
  "BindFields (ex_session\<lparr>BindFields := [''nick'']\<rparr>) = [''nick''] \<and>
   BindType (fst (Bind id (VPtr (Some 0)) (ex_session\<lparr>BindFields := [''nick'']\<rparr>, ex_heap_user)))
     = OBJECT_STRUCT \<and>
   BindFields (fst (Bind id (VPtr (Some 0)) (ex_session\<lparr>BindFields := [''nick'']\<rparr>, ex_heap_user)))
     = [''Id'', ''uname'']"
  by (simp add: Bind_def parseTable_def parseFields_def getTagName_def column_name_def
        ex_session_def ex_heap_user_def ex_User_def heap_get_def)

text \<open>
  C1, amended: for every destination that is a struct or a slice of structs, directly
  or behind a pointer, \<^verbatim>\<open>Bind\<close> classifies it as \<^verbatim>\<open>OBJECT_STRUCT\<close> or
  \<^verbatim>\<open>OBJECT_STRUCT_SLICE\<close> and sets the field list to the column names of the
  struct type's fields that are not ignored, in declaration order, whatever the field
  list held before the call.
\<close>

theorem Bind_record_fields_in_declaration_order:
  assumes "load h (Indirect tab) = Some (VStruct T vs) \<or>
           load h (Indirect tab) = Some (VSlice (TStruct T) es)"
  shows "BindType (fst (Bind conv tab (s, h))) \<in> {OBJECT_STRUCT, OBJECT_STRUCT_SLICE} \<and>
         BindFields (fst (Bind conv tab (s, h))) =
           map (column_name conv) (filter (\<lambda>f. ftag f \<noteq> Ignore) (tfields T))"
  using assms
  by (auto simp: Bind_def parseTable_struct parseTable_struct_slice getTagName_def)

text \<open>The amended C1 at the \<open>User\<close> struct behind a pointer, with a field list set
  beforehand.\<close>

theorem Bind_record_fields_in_declaration_order_witness:
  "load ex_heap_user (Indirect (VPtr (Some 0))) =
     Some (VStruct ex_User [SInt 0, SString [], SNil]) \<and>
   BindFields (fst (Bind id (VPtr (Some 0)) (ex_session\<lparr>BindFields := [''nick'']\<rparr>, ex_heap_user)))
     = [''Id'', ''uname'']"
proof -
  have h: "load ex_heap_user (Indirect (VPtr (Some 0))) =
             Some (VStruct ex_User [SInt 0, SString [], SNil])"
    by (simp add: ex_heap_user_def heap_get_def)
  from Bind_record_fields_in_declaration_order
         [OF disjI1 [OF h], where conv = id and s = "ex_session\<lparr>BindFields := [''nick'']\<rparr>"] h
  show ?thesis by (simp add: ex_User_def column_name_def)
qed

subsection \<open>C4: a destination of an unrecognized kind\<close>

text \<open>
  C4 as stated fails: \<^verbatim>\<open>Bind\<close> has no error result and drops the error of
  \<^verbatim>\<open>parseTable\<close>. A session is bound to a pointer to a slice of \<open>User\<close> and then to a
  value of another kind. \<^verbatim>\<open>parseTable\<close> returns the classification error; the session
  that \<^verbatim>\<open>Bind\<close> returns still has the bind type \<^verbatim>\<open>OBJECT_STRUCT_SLICE\<close> of the bind
  before, and a \<^verbatim>\<open>scan\<close> on it appends a row to the earlier slice and returns nil.
\<close>

theorem Bind_unrecognized_keeps_stale_shape:
  "fst (parseTable id
         ((fst (Bind id (VPtr (Some 0)) (ex_session, ex_heap_users)))\<lparr>BindOrigin := VOther\<rparr>,
          snd (Bind id (VPtr (Some 0)) (ex_session, ex_heap_users)))) = Some ErrTableKind \<and>
   BindType (fst (Bind id VOther (Bind id (VPtr (Some 0)) (ex_session, ex_heap_users))))
     = OBJECT_STRUCT_SLICE \<and>
   scan (ex_cursor [''id'', ''uname''] [[Inr (SInt 1), Inr (SString ''ann'')]])
        (fst (Bind id VOther (Bind id (VPtr (Some 0)) (ex_session, ex_heap_users))))
        (snd (Bind id VOther (Bind id (VPtr (Some 0)) (ex_session, ex_heap_users)))) =
     Returns (None, ex_cursor [''id'', ''uname''] [],
       [Var (VSlice (TStruct ex_User) [VStruct ex_User [SInt 1, SString ''ann'', SNil]]),
        Var (VStruct ex_User [SInt 1, SString ''ann'', SNil])])"
proof -
  have 1: "fst (parseTable id
         ((fst (Bind id (VPtr (Some 0)) (ex_session, ex_heap_users)))\<lparr>BindOrigin := VOther\<rparr>,
          snd (Bind id (VPtr (Some 0)) (ex_session, ex_heap_users)))) = Some ErrTableKind"
    unfolding ex_bind_users by (simp add: parseTable_def)
  have 2: "BindType (fst (Bind id VOther (Bind id (VPtr (Some 0)) (ex_session, ex_heap_users))))
             = OBJECT_STRUCT_SLICE"
    unfolding ex_bind_users_other by simp
  have 3: "scan (ex_cursor [''id'', ''uname''] [[Inr (SInt 1), Inr (SString ''ann'')]])
        (fst (Bind id VOther (Bind id (VPtr (Some 0)) (ex_session, ex_heap_users))))
        (snd (Bind id VOther (Bind id (VPtr (Some 0)) (ex_session, ex_heap_users)))) =
     Returns (None, ex_cursor [''id'', ''uname''] [],
       [Var (VSlice (TStruct ex_User) [VStruct ex_User [SInt 1, SString ''ann'', SNil]]),
        Var (VStruct ex_User [SInt 1, SString ''ann'', SNil])])"
    unfolding ex_bind_users_other
    by (simp add: scan_def ex_cursor_def Next_def Err_def Scan_struct_def scan_values_def
          exposed_ex_User store_fields_def heap_get_def heap_set_def Elem_def append_slice_def)
  from 1 2 3 show ?thesis by simp
qed

text \<open>
  C4, amended: for every destination that is neither nil nor a string and whose
  value, after following a pointer, is no struct, no map and no slice, or is a slice
  whose elements are neither maps nor structs, \<^verbatim>\<open>parseTable\<close> returns the
  classification error and assigns no bind type: it stores the destination, clears the
  field list and leaves every other field of the session and the heap as they were.
  \<^verbatim>\<open>Bind\<close> returns that session and no error.
\<close>

theorem Bind_unrecognized_drops_error:
  assumes "tab \<noteq> VNil" and "kind_of tab \<noteq> KString"
    and "Kind h (Indirect tab) \<notin> {KStruct, KMap, KSlice} \<or>
         (\<exists>es. load h (Indirect tab) = Some (VSlice TOther es))"
  shows "parseTable conv (s\<lparr>BindOrigin := tab\<rparr>, h) =
           (Some ErrTableKind, s\<lparr>BindOrigin := tab, BindFields := []\<rparr>, h) \<and>
         Bind conv tab (s, h) = (s\<lparr>BindOrigin := tab, BindFields := []\<rparr>, h)"
  using parseTable_unrecognized [OF assms] by (simp add: Bind_def)

text \<open>The amended C4 at a value of another kind, on a session whose bind type was
  \<^verbatim>\<open>OBJECT_MAP\<close>.\<close>

theorem Bind_unrecognized_drops_error_witness:
  "VOther \<noteq> VNil \<and> kind_of VOther \<noteq> KString \<and>
   Kind ex_heap_users (Indirect VOther) \<notin> {KStruct, KMap, KSlice} \<and>
   Bind id VOther (ex_session\<lparr>BindType := OBJECT_MAP\<rparr>, ex_heap_users) =
     (ex_session\<lparr>BindType := OBJECT_MAP, BindOrigin := VOther, BindFields := []\<rparr>, ex_heap_users)"
  using Bind_unrecognized_drops_error [of VOther ex_heap_users id "ex_session\<lparr>BindType := OBJECT_MAP\<rparr>"]
  by (simp add: Kind_def)

subsection \<open>C5: the table name after binding a map\<close>

text \<open>
  C5 as stated fails: binding the table name \<open>users\<close> and then a pointer to a map
  leaves the table name empty, not \<open>users\<close>. The map branch sets no local name, and
  the final \<^verbatim>\<open>s.BindName = BindName\<close> stores the empty string.
\<close>

theorem Bind_map_loses_table_name:
  "BindType (fst (Bind id (VString ''users'') (ex_session, ex_heap_map))) = OBJECT_STRING \<and>
   BindName (fst (Bind id (VString ''users'') (ex_session, ex_heap_map))) = ''users'' \<and>
   BindType (fst (Bind id (VPtr (Some 0)) (Bind id (VString ''users'') (ex_session, ex_heap_map))))
     = OBJECT_MAP \<and>
   BindName (fst (Bind id (VPtr (Some 0)) (Bind id (VString ''users'') (ex_session, ex_heap_map))))
     \<noteq> ''users''"
  by (simp add: Bind_def parseTable_def ex_session_def ex_heap_map_def heap_get_def)

text \<open>
  C5, amended: for every destination that is a map, directly or behind a pointer,
  \<^verbatim>\<open>Bind\<close> classifies it as \<^verbatim>\<open>OBJECT_MAP\<close> and sets the table name of the session to
  the empty string, whatever name the session held before.
\<close>

theorem Bind_map_resets_table_name:
  assumes "load h (Indirect tab) = Some (VMap m)"
  shows "BindType (fst (Bind conv tab (s, h))) = OBJECT_MAP \<and>
         BindName (fst (Bind conv tab (s, h))) = []"
  using assms by (simp add: Bind_def parseTable_map)

text \<open>The amended C5 at a pointer to a map, on a session named \<open>users\<close>.\<close>

theorem Bind_map_resets_table_name_witness:
  "load ex_heap_map (Indirect (VPtr (Some 0))) = Some (VMap (Some 1)) \<and>
   BindName (fst (Bind id (VPtr (Some 0)) (ex_session\<lparr>BindName := ''users''\<rparr>, ex_heap_map))) = []"
  using Bind_map_resets_table_name
          [of ex_heap_map "VPtr (Some 0)" "Some 1" id "ex_session\<lparr>BindName := ''users''\<rparr>"]
  by (simp add: ex_heap_map_def heap_get_def)

section \<open>Properties of \<^verbatim>\<open>Execute\<close>\<close>

lemma ascii_lower_of_variant:
  "c = w \<or> c = ascii_upper w \<Longrightarrow> w \<in> set ''select'' \<Longrightarrow> is_ascii c \<and> ascii_lower c = w"
  by (auto simp: ascii_upper_def ascii_lower_def is_ascii_def char_of_eq_iff)

lemma ToLower_case_variant_select:
  assumes "case_variant ''select'' p"
  shows "ToLower uni p = ''select''"
proof -
  from assms obtain a b c d e f where p: "p = [a, b, c, d, e, f]"
    and v: "a = CHR ''s'' \<or> a = ascii_upper CHR ''s''" "b = CHR ''e'' \<or> b = ascii_upper CHR ''e''"
       "c = CHR ''l'' \<or> c = ascii_upper CHR ''l''" "d = CHR ''e'' \<or> d = ascii_upper CHR ''e''"
       "e = CHR ''c'' \<or> e = ascii_upper CHR ''c''" "f = CHR ''t'' \<or> f = ascii_upper CHR ''t''"
    unfolding case_variant_def by (auto simp: list_all2_Cons2)
  have "is_ascii a \<and> ascii_lower a = CHR ''s''"
    using v(1) by (intro ascii_lower_of_variant) auto
  moreover have "is_ascii b \<and> ascii_lower b = CHR ''e''"
    using v(2) by (intro ascii_lower_of_variant) auto
  moreover have "is_ascii c \<and> ascii_lower c = CHR ''l''"
    using v(3) by (intro ascii_lower_of_variant) auto
  moreover have "is_ascii d \<and> ascii_lower d = CHR ''e''"
    using v(4) by (intro ascii_lower_of_variant) auto
  moreover have "is_ascii e \<and> ascii_lower e = CHR ''c''"
    using v(5) by (intro ascii_lower_of_variant) auto
  moreover have "is_ascii f \<and> ascii_lower f = CHR ''t''"
    using v(6) by (intro ascii_lower_of_variant) auto
  ultimately show ?thesis by (simp add: ToLower_def p)
qed

lemma record_sql_frame:
  "tx (record_sql env sqlstring args s) = tx s"
  "lastInsertId (record_sql env sqlstring args s) = lastInsertId s"
  by (simp_all add: record_sql_def Let_def)

subsection \<open>C6: a statement text shorter than six bytes\<close>

text \<open>
  C6: for every call of \<^verbatim>\<open>Execute\<close> whose statement text has fewer than six bytes,
  the slice expression \<^verbatim>\<open>sqlstring[0:6]\<close> of the leading-keyword check reaches past
  the end of the text and the call panics: it returns neither a count nor an error.
\<close>

theorem Execute_short_statement_panics:
  "length sqlstring < 6 \<Longrightarrow> Execute env sqlstring args st = Panics"
  by (simp add: Execute_def Let_def split: prod.splits)

text \<open>C6 at the four-byte text \<open>drop\<close>.\<close>

theorem Execute_short_statement_panics_witness:
  "length ''drop'' < 6 \<and> Execute ex_env ''drop'' [] (ex_session, []) = Panics"
  using Execute_short_statement_panics [of "''drop''" ex_env "[]" "(ex_session, [])"] by simp

subsection \<open>C7: a statement that begins with select\<close>

text \<open>
  C7: for every call of \<^verbatim>\<open>Execute\<close> whose statement text begins with the six
  characters of \<open>select\<close> in any letter case, the call returns zero rows affected and
  the usage error; the database state is the one before the call, so nothing was
  prepared or executed on the write connection or on the transaction, and the
  transaction handle of the session is unchanged. The session only records the
  statement text.
\<close>

theorem Execute_rejects_select:
  assumes "case_variant ''select'' (take 6 sqlstring)"
  shows "Execute env sqlstring args (s, db) =
           Returns (0, Some ErrSelectInExecute, record_sql env sqlstring args s, db) \<and>
         tx (record_sql env sqlstring args s) = tx s"
proof -
  have len: "\<not> length sqlstring < 6"
    using assms by (auto simp: case_variant_def dest!: list_all2_lengthD)
  have "ToLower (unicode_ToLower env) (take 6 sqlstring) = ''select''"
    using assms by (rule ToLower_case_variant_select)
  with len show ?thesis by (simp add: Execute_def Let_def record_sql_frame)
qed

text \<open>C7 at a statement in mixed case, on the database that logs its calls: the log
  stays empty.\<close>

theorem Execute_rejects_select_witness:
  "case_variant ''select'' (take 6 ''SeLect * from users'') \<and>
   Execute ex_env ''SeLect * from users'' [] (ex_session, []) =
     Returns (0, Some ErrSelectInExecute,
              ex_session\<lparr>lastSql := ''SeLect * from users'',
                         sqlLogs := [''SeLect * from users'']\<rparr>, [])"
proof -
  have v: "case_variant ''select'' (take 6 ''SeLect * from users'')"
    by code_simp
  from Execute_rejects_select [OF v, of ex_env "[]" ex_session "[]"] v
  show ?thesis by (simp add: record_sql_def ex_env_def ex_session_def)
qed

subsection \<open>C10: the last generated identifier\<close>

text \<open>
  C10: take a call of \<^verbatim>\<open>Execute\<close> whose statement is prepared and executed without
  error and whose lower-cased leading six characters are \<open>insert\<close>, \<open>update\<close> or
  \<open>delete\<close>. The call returns what \<^verbatim>\<open>RowsAffected\<close> reports, count and error. Under
  \<open>insert\<close>, the last generated identifier of the session becomes the identifier the
  driver reports when that retrieval succeeds, and keeps its previous value when the
  retrieval fails, with no effect on what the call returns. Under \<open>update\<close> and
  \<open>delete\<close> it keeps its previous value.
\<close>

theorem Execute_lastInsertId:
  assumes "6 \<le> length sqlstring"
    and "(case tx s of None \<Rightarrow> master_Prepare env sqlstring db
                     | Some t \<Rightarrow> tx_Prepare env t sqlstring db) = (Inr st, db1)"
    and "stmt_Exec env st args db1 = (Inr result, db2)"
    and "operType = ToLower (unicode_ToLower env) (take 6 sqlstring)"
    and "operType = ''insert'' \<or> operType = ''update'' \<or> operType = ''delete''"
  shows "\<exists>s'. Execute env sqlstring args (s, db) =
                 Returns (fst (res_RowsAffected result), snd (res_RowsAffected result), s',
                          stmt_Close env st db2) \<and>
              (operType = ''insert'' \<and> snd (res_LastInsertId result) = None \<longrightarrow>
                 LastInsertId s' = fst (res_LastInsertId result)) \<and>
              (operType = ''insert'' \<and> snd (res_LastInsertId result) \<noteq> None \<longrightarrow>
                 LastInsertId s' = LastInsertId s) \<and>
              (operType = ''update'' \<or> operType = ''delete'' \<longrightarrow>
                 LastInsertId s' = LastInsertId s)"
  using assms record_sql_frame [of env sqlstring args s]
  by (cases "res_LastInsertId result"; cases "res_RowsAffected result")
     (auto simp: Execute_def Let_def LastInsertId_def split: option.splits)

text \<open>C10 at an insert whose identifier is reported, at an insert on the database
  that reports none, and at an update, the last two on a session that holds the
  identifier 5.\<close>

theorem Execute_lastInsertId_witness:
  "Execute ex_env ''insert into users (name) values (?)'' [SString ''a''] (ex_session, []) =
     Returns (1, None,
       ex_session\<lparr>lastSql := ''insert into users (name) values (?)'',
                  sqlLogs := [''insert into users (name) values (?)''],
                  lastInsertId := 42\<rparr>, [''Prepare'', ''Exec'', ''Close'']) \<and>
   Execute ex_env_noid ''insert into users (name) values (?)'' [SString ''a'']
       (ex_session\<lparr>lastInsertId := 5\<rparr>, []) =
     Returns (1, None,
       ex_session\<lparr>lastSql := ''insert into users (name) values (?)'',
                  sqlLogs := [''insert into users (name) values (?)''],
                  lastInsertId := 5\<rparr>, [''Prepare'', ''Exec'', ''Close'']) \<and>
   Execute ex_env ''update users set name = ?'' [SString ''a''] (ex_session\<lparr>lastInsertId := 5\<rparr>, []) =
     Returns (1, None,
       ex_session\<lparr>lastSql := ''update users set name = ?'',
                  sqlLogs := [''update users set name = ?''],
                  lastInsertId := 5\<rparr>, [''Prepare'', ''Exec'', ''Close''])"
proof -
  note t1 = Execute_lastInsertId
      [where sqlstring = "''insert into users (name) values (?)''" and s = ex_session
         and env = ex_env and db = "[]" and st = 1 and ?db1.0 = "[''Prepare'']"
         and args = "[SString ''a'']" and result = ex_result
         and ?db2.0 = "[''Prepare'', ''Exec'']" and operType = "''insert''"]
  note t2 = Execute_lastInsertId
      [where sqlstring = "''insert into users (name) values (?)''"
         and s = "ex_session\<lparr>lastInsertId := 5\<rparr>"
         and env = ex_env_noid and db = "[]" and st = 1 and ?db1.0 = "[''Prepare'']"
         and args = "[SString ''a'']" and result = ex_result_noid
         and ?db2.0 = "[''Prepare'', ''Exec'']" and operType = "''insert''"]
  note t3 = Execute_lastInsertId
      [where sqlstring = "''update users set name = ?''"
         and s = "ex_session\<lparr>lastInsertId := 5\<rparr>"
         and env = ex_env and db = "[]" and st = 1 and ?db1.0 = "[''Prepare'']"
         and args = "[SString ''a'']" and result = ex_result
         and ?db2.0 = "[''Prepare'', ''Exec'']" and operType = "''update''"]
  show ?thesis
    using t1 t2 t3
    by (simp add: ex_env_def ex_env_noid_def ex_session_def ex_result_def ex_result_noid_def
          ToLower_def is_ascii_def ascii_lower_def Execute_def record_sql_def LastInsertId_def)
qed

section \<open>Properties of \<^verbatim>\<open>Transaction\<close>\<close>



lemma Transaction_begin_error:
  "Begin env st = (Some err, st1) \<Longrightarrow> Transaction env closers st = Returns (Some err, st1)"
  by (simp add: Transaction_def)

subsection \<open>C9: the steps of a transaction\<close>



section \<open>Properties of materialization\<close>

lemma convert_cells_Inr: "convert_cells (map Inr vals) = (vals, None)"
  by (induction vals) auto

lemma set_fields_length: "length (set_fields ws vs) = length vs"
  by (induction ws vs rule: set_fields.induct) auto

lemma set_fields_other: "i \<notin> fst ` set ws \<Longrightarrow> set_fields ws vs ! i = vs ! i"
  by (induction ws vs rule: set_fields.induct) auto

lemma set_fields_nth:
  "distinct (map fst ws) \<Longrightarrow> (i, v) \<in> set ws \<Longrightarrow> i < length vs \<Longrightarrow> set_fields ws vs ! i = v"
proof (induction ws vs rule: set_fields.induct)
  case (1 vs)
  then show ?case by simp
next
  case (2 j w ws vs)
  show ?case
  proof (cases "(i, v) = (j, w)")
    case True
    with 2 have "i \<notin> fst ` set ws" by auto
    then have "set_fields ws (vs[j := w]) ! i = (vs[j := w]) ! i" by (rule set_fields_other)
    with True 2 show ?thesis by simp
  next
    case False
    with 2 show ?thesis by auto
  qed
qed

lemma distinct_exposed: "distinct (exposed T)"
  by (simp add: exposed_def)

lemma exposed_bound: "i \<in> set (exposed T) \<Longrightarrow> i < length (tfields T)"
  by (simp add: exposed_def)

lemma store_fields_positional:
  assumes h: "heap_get h a = Some (Var (VStruct T vs))"
    and len: "length vals = length (exposed T)" "length vs = length (tfields T)"
  shows "\<exists>vs'. heap_get (store_fields h a (zip (exposed T) vals)) a = Some (Var (VStruct T vs')) \<and>
           length vs' = length vs \<and>
           (\<forall>k < length vals. vs' ! (exposed T ! k) = vals ! k) \<and>
           (\<forall>i < length vs. i \<notin> set (exposed T) \<longrightarrow> vs' ! i = vs ! i)"
proof -
  let ?ws = "zip (exposed T) vals"
  let ?vs' = "set_fields ?ws vs"
  from h have a: "a < length h" by (auto simp: heap_get_def split: if_splits)
  have fst_ws: "map fst ?ws = exposed T" using len by simp
  have 1: "heap_get (store_fields h a ?ws) a = Some (Var (VStruct T ?vs'))"
    using h a by (simp add: store_fields_def heap_set_def heap_get_def)
  have 2: "length ?vs' = length vs" by (rule set_fields_length)
  have 3: "\<forall>k < length vals. ?vs' ! (exposed T ! k) = vals ! k"
  proof (intro allI impI)
    fix k assume k: "k < length vals"
    then have m: "(exposed T ! k, vals ! k) \<in> set ?ws"
      using len by (auto simp: set_zip)
    have d: "distinct (map fst ?ws)" using fst_ws distinct_exposed by simp
    have b: "exposed T ! k < length vs"
      using k len exposed_bound [of "exposed T ! k" T] by simp
    from d m b show "?vs' ! (exposed T ! k) = vals ! k" by (rule set_fields_nth)
  qed
  have 4: "\<forall>i < length vs. i \<notin> set (exposed T) \<longrightarrow> ?vs' ! i = vs ! i"
  proof (intro allI impI)
    fix i assume "i \<notin> set (exposed T)"
    then have "i \<notin> fst ` set ?ws" using fst_ws by (metis set_map)
    then show "?vs' ! i = vs ! i" by (rule set_fields_other)
  qed
  from 1 2 3 4 show ?thesis by blast
qed

lemma store_fields_frame: "b \<noteq> a \<Longrightarrow> heap_get (store_fields h a ws) b = heap_get h b"
  by (auto simp: store_fields_def heap_get_def heap_set_def
           split: option.splits cell.splits go_val.splits)

lemma scanRow_empty:
  "pending rows = [] \<Longrightarrow>
   scanRow rows dst h =
     Returns (Some (case end_err rows of None \<Rightarrow> ErrNoRows | Some e \<Rightarrow> e),
              rows\<lparr>current := None, lasterr := end_err rows\<rparr>, h)"
  by (simp add: scanRow_def Next_def Err_def split: option.splits)

lemma scanRow_row:
  assumes "pending rows = r # rs" and "heap_get h a = Some (Var (VStruct T vs))"
  shows "scanRow rows (VPtr (Some a)) h =
     Returns (snd (scan_values (rows\<lparr>pending := rs, current := Some r, lasterr := None\<rparr>)
                    (length (exposed T))),
              rows\<lparr>pending := rs, current := Some r, lasterr := None\<rparr>,
              store_fields h a (zip (exposed T)
                (fst (scan_values (rows\<lparr>pending := rs, current := Some r, lasterr := None\<rparr>)
                       (length (exposed T))))))"
  using assms
  by (simp add: scanRow_def Next_def Err_def Scan_struct_def split: option.splits prod.splits)

subsection \<open>C8: one row into a record\<close>

text \<open>
  C8: take a session whose bind type is \<^verbatim>\<open>OBJECT_STRUCT\<close> and whose destination is a
  pointer to a struct variable. \<^verbatim>\<open>scan\<close> returns, and the cursor it leaves has lost
  exactly its first pending row: it was advanced once, the rows after the first stay
  pending. When no row is pending and the cursor ended without an error, the result
  is \<^verbatim>\<open>sql.ErrNoRows\<close>, which is no scan error, and the heap is unchanged (when the
  cursor ended with an error, that error is returned). When a row is pending, that
  row is the one scanned: the result is what \<^verbatim>\<open>Scan\<close> returns for it and no heap cell
  but the struct variable changes. When all its columns convert and there are as many
  of them as fields that are not ignored, the result is nil, the \<open>k\<close>-th such field
  holds the \<open>k\<close>-th column, and the ignored fields keep their values.
\<close>

theorem scan_record_advances_once:
  assumes "BindType s = OBJECT_STRUCT"
    and "BindOrigin s = VPtr (Some a)"
    and "heap_get h a = Some (Var (VStruct T vs))"
  shows "\<exists>err rows' h'. scan rows s h = Returns (err, rows', h') \<and>
           pending rows' = drop 1 (pending rows) \<and>
           (pending rows = [] \<and> end_err rows = None \<longrightarrow> err = Some ErrNoRows \<and> h' = h) \<and>
           (\<forall>e. pending rows = [] \<and> end_err rows = Some e \<longrightarrow> err = Some e \<and> h' = h) \<and>
           (\<forall>r rs. pending rows = r # rs \<longrightarrow>
              current rows' = Some r \<and>
              err = snd (scan_values rows' (length (exposed T))) \<and>
              (\<forall>b. b \<noteq> a \<longrightarrow> heap_get h' b = heap_get h b)) \<and>
           (\<forall>vals rs. pending rows = map Inr vals # rs \<and> length vals = length (exposed T) \<and>
                       length vs = length (tfields T) \<longrightarrow>
              err = None \<and>
              (\<exists>vs'. heap_get h' a = Some (Var (VStruct T vs')) \<and> length vs' = length vs \<and>
                 (\<forall>k < length vals. vs' ! (exposed T ! k) = vals ! k) \<and>
                 (\<forall>i < length vs. i \<notin> set (exposed T) \<longrightarrow> vs' ! i = vs ! i)))"
proof (cases "pending rows")
  case Nil
  with assms show ?thesis by (simp add: scan_def scanRow_empty)
next
  case (Cons r rs)
  let ?rows' = "rows\<lparr>pending := rs, current := Some r, lasterr := None\<rparr>"
  let ?n = "length (exposed T)"
  have run: "scan rows s h =
      Returns (snd (scan_values ?rows' ?n), ?rows',
               store_fields h a (zip (exposed T) (fst (scan_values ?rows' ?n))))"
    using assms Cons by (simp add: scan_def scanRow_row)
  have ok: "snd (scan_values ?rows' ?n) = None \<and>
        (\<exists>vs'. heap_get (store_fields h a (zip (exposed T) (fst (scan_values ?rows' ?n)))) a
                  = Some (Var (VStruct T vs')) \<and> length vs' = length vs \<and>
           (\<forall>k < length vals. vs' ! (exposed T ! k) = vals ! k) \<and>
           (\<forall>i < length vs. i \<notin> set (exposed T) \<longrightarrow> vs' ! i = vs ! i))"
    if "r = map Inr vals" "length vals = ?n" "length vs = length (tfields T)" for vals
  proof -
    have sv: "scan_values ?rows' ?n = (vals, None)"
      using that by (simp add: scan_values_def convert_cells_Inr)
    show ?thesis
      using store_fields_positional [OF assms(3) that(2) that(3)] by (simp add: sv)
  qed
  show ?thesis
    unfolding run using Cons ok by (auto simp: store_fields_frame)
qed

text \<open>C8 at a pointer to a \<open>User\<close> struct: with two rows pending the first is stored
  and the second stays pending; with none the result is \<^verbatim>\<open>sql.ErrNoRows\<close>.\<close>

theorem scan_record_advances_once_witness:
  "BindType (fst (Bind id (VPtr (Some 0)) (ex_session, ex_heap_user))) = OBJECT_STRUCT \<and>
   BindOrigin (fst (Bind id (VPtr (Some 0)) (ex_session, ex_heap_user))) = VPtr (Some 0) \<and>
   heap_get ex_heap_user 0 = Some (Var (VStruct ex_User [SInt 0, SString [], SNil])) \<and>
   scan (ex_cursor [''id'', ''uname'']
           [[Inr (SInt 1), Inr (SString ''ann'')], [Inr (SInt 2), Inr (SString ''bob'')]])
        (fst (Bind id (VPtr (Some 0)) (ex_session, ex_heap_user))) ex_heap_user =
     Returns (None,
       (ex_cursor [''id'', ''uname''] [[Inr (SInt 2), Inr (SString ''bob'')]])
          \<lparr>current := Some [Inr (SInt 1), Inr (SString ''ann'')]\<rparr>,
       [Var (VStruct ex_User [SInt 1, SString ''ann'', SNil])]) \<and>
   scan (ex_cursor [''id'', ''uname''] [])
        (fst (Bind id (VPtr (Some 0)) (ex_session, ex_heap_user))) ex_heap_user =
     Returns (Some ErrNoRows, ex_cursor [''id'', ''uname''] [], ex_heap_user)"
proof -
  have h1: "BindType (fst (Bind id (VPtr (Some 0)) (ex_session, ex_heap_user))) = OBJECT_STRUCT"
    and h2: "BindOrigin (fst (Bind id (VPtr (Some 0)) (ex_session, ex_heap_user))) = VPtr (Some 0)"
    unfolding ex_bind_user by simp_all
  have h3: "heap_get ex_heap_user 0 = Some (Var (VStruct ex_User [SInt 0, SString [], SNil]))"
    by (simp add: ex_heap_user_def heap_get_def)
  note t1 = scan_record_advances_once [OF h1 h2 h3,
      of "ex_cursor [''id'', ''uname'']
            [[Inr (SInt 1), Inr (SString ''ann'')], [Inr (SInt 2), Inr (SString ''bob'')]]"]
  note t2 = scan_record_advances_once [OF h1 h2 h3, of "ex_cursor [''id'', ''uname''] []"]
  show ?thesis
    using t1 t2 h1 h2 h3 unfolding ex_bind_user
    by (simp add: scan_def scanRow_def ex_cursor_def Next_def Err_def Scan_struct_def
          scan_values_def exposed_ex_User store_fields_def heap_get_def heap_set_def
          ex_heap_user_def)
qed

subsection \<open>C2: a row that fails to scan\<close>

text \<open>The struct paths stop at the failing row. \<^verbatim>\<open>scanAll\<close> returns the error of
  \<^verbatim>\<open>Scan\<close> at once, with the later rows still pending; on the example the row
  appended before stays in the slice.\<close>

lemma scanAll_stops_at_scan_error:
  assumes "pending rows = r # rs"
    and "load h (BindResult s) = Some dst"
    and "Scan_struct (rows\<lparr>pending := rs, current := Some r, lasterr := None\<rparr>)
           (strutForScan h dst) h = Returns (Some err, h1)"
  shows "scanAll rows s h =
           Returns (Some err, rows\<lparr>pending := rs, current := Some r, lasterr := None\<rparr>, h1)"
  using assms by (subst scanAll.simps) (simp add: Next_def)

lemma scanAll_example_stops_and_keeps:
  "scan (ex_cursor [''id'', ''uname'']
           [[Inr (SInt 1), Inr (SString ''ann'')], [Inr (SInt 2), Inl ''converting NULL to string''],
            [Inr (SInt 3), Inr (SString ''cy'')]])
        (fst (Bind id (VPtr (Some 0)) (ex_session, ex_heap_users)))
        (snd (Bind id (VPtr (Some 0)) (ex_session, ex_heap_users))) =
     Returns (Some (ErrScan ''converting NULL to string''),
       (ex_cursor [''id'', ''uname''] [[Inr (SInt 3), Inr (SString ''cy'')]])
          \<lparr>current := Some [Inr (SInt 2), Inl ''converting NULL to string'']\<rparr>,
       [Var (VSlice (TStruct ex_User) [VStruct ex_User [SInt 1, SString ''ann'', SNil]]),
        Var (VStruct ex_User [SInt 2, SString ''ann'', SNil])])"
  unfolding ex_bind_users
  by (simp add: scan_def ex_cursor_def Next_def Err_def Scan_struct_def scan_values_def
        exposed_ex_User store_fields_def heap_get_def heap_set_def Elem_def append_slice_def)

text \<open>
  C2 says that under every bind type a row that fails to scan stops the
  materialization and that the scan error is returned. \<^verbatim>\<open>scanMapAll\<close> does not look at
  the result of \<^verbatim>\<open>rows.Scan\<close>. Bound to a pointer to a slice of maps, over a cursor
  of three rows whose second row fails to scan, \<^verbatim>\<open>scan\<close> drains the cursor, appends
  three elements and returns nil.
\<close>

theorem scanMapAll_ignores_scan_error:
  "scan (ex_cursor [''id'']
           [[Inr (SInt 1)], [Inl ''Rows are closed''], [Inr (SInt 3)]])
        (fst (Bind id (VPtr (Some 0)) (ex_session, ex_heap_maps)))
        (snd (Bind id (VPtr (Some 0)) (ex_session, ex_heap_maps))) =
     Returns (None, ex_cursor [''id''] [],
              [Var (VSlice TMap [VMap (Some 1), VMap (Some 1), VMap (Some 1)]),
               MapObj [(''id'', SInt 3)]])"
  unfolding ex_bind_maps
  by (simp add: scan_def scanMapAll_def Columns_def ex_cursor_def Next_def
        scan_values_def SetMapIndex_def heap_get_def heap_set_def append_slice_def)

subsection \<open>C3: the maps appended under a slice of maps\<close>

text \<open>
  C3 says that each appended element is a map of its own, holding the values of its
  row. \<^verbatim>\<open>parseTable\<close> makes one map, and \<^verbatim>\<open>scanMapAll\<close> writes every row into it and
  appends it again. Over a cursor of the two rows \<open>id = 1\<close> and \<open>id = 2\<close>, the slice
  ends with two references to the one map at address 1, and that map holds
  \<open>id = 2\<close>: the values of the first row are gone, and a write through one element
  shows through the other.
\<close>

theorem scanMapAll_appends_one_shared_map:
  "scan (ex_cursor [''id''] [[Inr (SInt 1)], [Inr (SInt 2)]])
        (fst (Bind id (VPtr (Some 0)) (ex_session, ex_heap_maps)))
        (snd (Bind id (VPtr (Some 0)) (ex_session, ex_heap_maps))) =
     Returns (None, ex_cursor [''id''] [],
              [Var (VSlice TMap [VMap (Some 1), VMap (Some 1)]), MapObj [(''id'', SInt 2)]])"
  unfolding ex_bind_maps
  by (simp add: scan_def scanMapAll_def Columns_def ex_cursor_def Next_def
        scan_values_def SetMapIndex_def heap_get_def heap_set_def append_slice_def)

end
